theory Spec2Isabelle
  imports Complex_Main
begin

section \<open>Values shared by the whole model\<close>

text \<open>
  The embedding follows \<^verbatim>\<open>autoencoders/models/bigae.py\<close>. Tensor entries are real
  numbers: rounding, NaN and infinities of the float types are outside the model.
  A tensor is its shape together with the entry at each index tuple; only index
  tuples inside the shape are entries of the tensor.
\<close>

record tensor =
  shape :: "nat list"
  ent :: "nat list \<Rightarrow> real"

text \<open>
  Values a configuration can hold, and the exceptions the code can raise;
  \<open>ExternalError\<close> stands for whatever a collaborator outside this file raises.
\<close>

datatype cfgval = CBool bool | CInt int | CStr string

datatype error =
    NotImplementedError string
  | KeyError cfgval
  | KeyNotFoundError string
  | AssertionError string
  | IndexError
  | TypeError
  | ValueError
  | RuntimeError
  | ExternalError string

definition err_bind :: "error + 'a \<Rightarrow> ('a \<Rightarrow> error + 'b) \<Rightarrow> error + 'b" where
  "err_bind m f = (case m of Inl e \<Rightarrow> Inl e | Inr v \<Rightarrow> f v)"

section \<open>ClassUp\<close>

text \<open>
  The layers \<^verbatim>\<open>nn.Sequential\<close> can hold here. A linear layer carries its input and
  output width, its weight matrix (row = output unit) and its bias.
\<close>

datatype layer =
    Linear nat nat "nat \<Rightarrow> nat \<Rightarrow> real" "nat \<Rightarrow> real"
  | LeakyReLU
  | Sigmoid

definition map_entries :: "(real \<Rightarrow> real) \<Rightarrow> tensor \<Rightarrow> tensor" where
  "map_entries f x = x\<lparr>ent := (\<lambda>idx. f (ent x idx))\<rparr>"

text \<open>
  \<^verbatim>\<open>nn.Linear\<close> acts on the last axis and raises when that axis is missing or has
  another width; \<^verbatim>\<open>nn.LeakyReLU()\<close> has negative slope 0.01.
\<close>

definition linear_apply ::
  "nat \<Rightarrow> nat \<Rightarrow> (nat \<Rightarrow> nat \<Rightarrow> real) \<Rightarrow> (nat \<Rightarrow> real) \<Rightarrow> tensor \<Rightarrow> error + tensor" where
  "linear_apply n_in n_out W b x =
     (if shape x = [] \<or> last (shape x) \<noteq> n_in then Inl RuntimeError
      else Inr \<lparr>shape = butlast (shape x) @ [n_out],
                ent = (\<lambda>idx. (\<Sum>k\<leftarrow>[0..<n_in]. ent x (butlast idx @ [k]) * W (last idx) k)
                             + b (last idx))\<rparr>)"

definition leaky_relu :: "real \<Rightarrow> real" where
  "leaky_relu v = (if 0 \<le> v then v else v / 100)"

definition sigmoid :: "real \<Rightarrow> real" where
  "sigmoid v = 1 / (1 + exp (- v))"

fun layer_apply :: "layer \<Rightarrow> tensor \<Rightarrow> error + tensor" where
  "layer_apply (Linear n_in n_out W b) x = linear_apply n_in n_out W b x"
| "layer_apply LeakyReLU x = Inr (map_entries leaky_relu x)"
| "layer_apply Sigmoid x = Inr (map_entries sigmoid x)"

fun Sequential :: "layer list \<Rightarrow> tensor \<Rightarrow> error + tensor" where
  "Sequential [] x = Inr x"
| "Sequential (l # ls) x = err_bind (layer_apply l x) (Sequential ls)"

text \<open>\<^verbatim>\<open>x.squeeze(-1)\<close>: drops the last axis when it has size 1, and nothing else.\<close>

definition squeeze_last :: "tensor \<Rightarrow> tensor" where
  "squeeze_last x =
     (if shape x \<noteq> [] \<and> last (shape x) = 1
      then \<lparr>shape = butlast (shape x), ent = (\<lambda>idx. ent x (idx @ [0]))\<rparr>
      else x)"

text \<open>\<^verbatim>\<open>softmax(x, dim=1)\<close>: an index error on a tensor with fewer than two axes.\<close>

definition softmax_dim1 :: "tensor \<Rightarrow> error + tensor" where
  "softmax_dim1 x =
     (if length (shape x) < 2 then Inl IndexError
      else Inr \<lparr>shape = shape x,
                ent = (\<lambda>idx. exp (ent x idx)
                             / (\<Sum>j\<leftarrow>[0..<shape x ! 1]. exp (ent x (idx[1 := j]))))\<rparr>)"

text \<open>
  \<^verbatim>\<open>ClassUp.__init__\<close>. The freshly initialised parameters of the k-th linear layer
  are \<open>params k\<close>; \<open>out_dim = None\<close> means the output width is \<open>zdim\<close> (the argument \<^verbatim>\<open>dim\<close>).
\<close>

definition ClassUp_init ::
  "(nat \<Rightarrow> (nat \<Rightarrow> nat \<Rightarrow> real) \<times> (nat \<Rightarrow> real)) \<Rightarrow> nat \<Rightarrow> nat \<Rightarrow> nat \<Rightarrow> bool \<Rightarrow> nat option
     \<Rightarrow> layer list" where
  "ClassUp_init params zdim depth hidden_dim use_sigmoid out_dim =
     [Linear zdim hidden_dim (fst (params 0)) (snd (params 0)), LeakyReLU]
     @ concat (map (\<lambda>d. [Linear hidden_dim hidden_dim (fst (params (Suc d))) (snd (params (Suc d))),
                          LeakyReLU]) [0..<depth])
     @ [Linear hidden_dim (case out_dim of None \<Rightarrow> zdim | Some n \<Rightarrow> n)
          (fst (params (Suc depth))) (snd (params (Suc depth)))]
     @ (if use_sigmoid then [Sigmoid] else [])"

definition ClassUp_forward :: "layer list \<Rightarrow> tensor \<Rightarrow> error + tensor" where
  "ClassUp_forward main x =
     err_bind (Sequential main (squeeze_last (squeeze_last x))) softmax_dim1"

text \<open>Constant tensors and parameters, as \<^verbatim>\<open>torch.full\<close> builds them.\<close>

definition full :: "nat list \<Rightarrow> real \<Rightarrow> tensor" where
  "full s v = \<lparr>shape = s, ent = (\<lambda>idx. v)\<rparr>"

definition zero_params :: "nat \<Rightarrow> (nat \<Rightarrow> nat \<Rightarrow> real) \<times> (nat \<Rightarrow> real)" where
  "zero_params k = ((\<lambda>out_unit in_unit. 0), (\<lambda>out_unit. 0))"

section \<open>Configuration\<close>

text \<open>
  A configuration is the nested dictionary read through \<^verbatim>\<open>edflow.util.retrieve\<close>,
  kept here as a map from the slash-separated path to the value. \<open>retrieve\<close> returns
  the value at the path, else the default when one is given, else raises.
\<close>

type_synonym config = "string \<rightharpoonup> cfgval"

definition retrieve :: "config \<Rightarrow> string \<Rightarrow> cfgval option \<Rightarrow> error + cfgval" where
  "retrieve cfg key dflt =
     (case cfg key of
        Some v \<Rightarrow> Inr v
      | None \<Rightarrow> (case dflt of Some d \<Rightarrow> Inr d | None \<Rightarrow> Inl (KeyNotFoundError key)))"

text \<open>Python truthiness, and the uses of a configuration value as a number.\<close>

fun truthy :: "cfgval \<Rightarrow> bool" where
  "truthy (CBool b) = b"
| "truthy (CInt i) = (i \<noteq> 0)"
| "truthy (CStr s) = (s \<noteq> [])"

fun as_int :: "cfgval \<Rightarrow> error + int" where
  "as_int (CInt i) = Inr i"
| "as_int (CBool b) = Inr (if b then 1 else 0)"
| "as_int (CStr s) = Inl TypeError"

text \<open>Subscripting a dictionary with string keys, and a tuple.\<close>

definition dict_get :: "(string \<times> 'a) list \<Rightarrow> cfgval \<Rightarrow> error + 'a" where
  "dict_get d v =
     (case v of
        CStr s \<Rightarrow> (case map_of d s of Some a \<Rightarrow> Inr a | None \<Rightarrow> Inl (KeyError v))
      | _ \<Rightarrow> Inl (KeyError v))"

definition tuple_get :: "'a list \<Rightarrow> nat \<Rightarrow> error + 'a" where
  "tuple_get xs i = (if i < length xs then Inr (xs ! i) else Inl IndexError)"

section \<open>DenseEncoderLayer\<close>

text \<open>The arguments \<^verbatim>\<open>nn.Conv2d\<close> is built with.\<close>

record conv2d =
  conv_in_channels :: int
  conv_out_channels :: int
  conv_kernel_size :: int
  conv_stride :: int
  conv_padding :: int
  conv_bias :: bool

record DenseEncoderLayer =
  scale :: int
  wm :: rat
  in_channels :: int
  out_channels :: int
  kernel_size :: int
  sub_layers :: "conv2d list"

text \<open>\<^verbatim>\<open>int(q)\<close> truncates towards zero.\<close>

definition py_int :: "rat \<Rightarrow> int" where
  "py_int q = (if 0 \<le> q then \<lfloor>q\<rfloor> else \<lceil>q\<rceil>)"

text \<open>
  \<^verbatim>\<open>DenseEncoderLayer.build\<close>: the one convolution. The framework cannot allocate
  a weight with a negative extent.
\<close>

definition DenseEncoderLayer_build :: "DenseEncoderLayer \<Rightarrow> error + DenseEncoderLayer" where
  "DenseEncoderLayer_build self =
     (if in_channels self < 0 \<or> out_channels self < 0 \<or> kernel_size self < 0
      then Inl RuntimeError
      else Inr (self\<lparr>sub_layers :=
                  [\<lparr>conv_in_channels = in_channels self,
                    conv_out_channels = out_channels self,
                    conv_kernel_size = kernel_size self,
                    conv_stride = 1,
                    conv_padding = 0,
                    conv_bias = True\<rparr>]\<rparr>))"

definition DenseEncoderLayer_init ::
  "int \<Rightarrow> int \<Rightarrow> int \<Rightarrow> int option \<Rightarrow> rat \<Rightarrow> error + DenseEncoderLayer" where
  "DenseEncoderLayer_init scale_arg spatial_size out_size in_channels_arg width_multiplier =
     (let derived = py_int (width_multiplier * 64 * min (power_int 2 (scale_arg - 1)) 16)
      in DenseEncoderLayer_build
           \<lparr>scale = scale_arg,
            wm = width_multiplier,
            in_channels = (case in_channels_arg of None \<Rightarrow> derived | Some c \<Rightarrow> c),
            out_channels = out_size,
            kernel_size = spatial_size,
            sub_layers = []\<rparr>)"

fun apply_all :: "('a \<Rightarrow> tensor \<Rightarrow> error + tensor) \<Rightarrow> 'a list \<Rightarrow> tensor \<Rightarrow> error + tensor" where
  "apply_all run [] x = Inr x"
| "apply_all run (l # ls) x = err_bind (run l x) (apply_all run ls)"

text \<open>\<^verbatim>\<open>DenseEncoderLayer.forward\<close>; \<open>conv\<close> is the framework's convolution.\<close>

definition DenseEncoderLayer_forward ::
  "(conv2d \<Rightarrow> tensor \<Rightarrow> error + tensor) \<Rightarrow> DenseEncoderLayer \<Rightarrow> tensor \<Rightarrow> error + tensor" where
  "DenseEncoderLayer_forward conv self input = apply_all conv (sub_layers self) input"

section \<open>ResnetEncoder\<close>

datatype norm_layer = InstanceNorm2d | BatchNorm2d | ActNorm

definition norm_options :: "(string \<times> norm_layer) list" where
  "norm_options = [(''in'', InstanceNorm2d), (''bn'', BatchNorm2d), (''an'', ActNorm)]"

datatype resnet_kind = resnet18 | resnet34 | resnet50 | resnet101

definition possible_resnets :: "(string \<times> resnet_kind) list" where
  "possible_resnets =
     [(''resnet18'', resnet18), (''resnet34'', resnet34),
      (''resnet50'', resnet50), (''resnet101'', resnet101)]"

definition rescale :: "real \<Rightarrow> real" where
  "rescale v = (v + 1) / 2"

text \<open>
  The residual network of the vision library: its stages, and its last layer, which is
  the library's own classifier until the encoder replaces it.
\<close>

datatype head = LibraryFc "tensor \<Rightarrow> error + tensor" | DenseHead DenseEncoderLayer

record backbone =
  conv1 :: "tensor \<Rightarrow> error + tensor"
  bn1 :: "tensor \<Rightarrow> error + tensor"
  relu :: "tensor \<Rightarrow> error + tensor"
  maxpool :: "tensor \<Rightarrow> error + tensor"
  layer1 :: "tensor \<Rightarrow> error + tensor"
  layer2 :: "tensor \<Rightarrow> error + tensor"
  layer3 :: "tensor \<Rightarrow> error + tensor"
  layer4 :: "tensor \<Rightarrow> error + tensor"
  avgpool :: "tensor \<Rightarrow> error + tensor"
  fc :: head

record ResnetEncoder =
  config :: config
  resnet_type :: cfgval
  z_dim :: cfgval
  model :: backbone
  image_transform :: "tensor \<Rightarrow> error + tensor"

text \<open>
  The three properties. They read no attribute of \<open>self\<close>, so \<open>self\<close> may be the
  object at any stage of its construction.
\<close>

definition ResnetEncoder_mean :: "'self \<Rightarrow> real list" where
  "ResnetEncoder_mean self = [485 / 1000, 456 / 1000, 406 / 1000]"

definition ResnetEncoder_std :: "'self \<Rightarrow> real list" where
  "ResnetEncoder_std self = [229 / 1000, 224 / 1000, 225 / 1000]"

definition ResnetEncoder_input_size :: "'self \<Rightarrow> nat list" where
  "ResnetEncoder_input_size self = [3, 224, 224]"

text \<open>
  The vision library's \<^verbatim>\<open>Normalize\<close> on one image of shape (..., C, H, W): the
  per-channel statistics are broadcast against the third axis from the end, which
  must have as many channels as there are statistics.
\<close>

definition Normalize :: "real list \<Rightarrow> real list \<Rightarrow> tensor \<Rightarrow> error + tensor" where
  "Normalize mean_arg std_arg x =
     (let r = length (shape x) in
      if r < 3 then Inl ValueError
      else if 0 \<in> set std_arg then Inl ValueError
      else if shape x ! (r - 3) \<noteq> length mean_arg then Inl RuntimeError
      else Inr \<lparr>shape = shape x,
                ent = (\<lambda>idx. (ent x idx - mean_arg ! (idx ! (r - 3))) / std_arg ! (idx ! (r - 3)))\<rparr>)"

text \<open>Indexing the first axis, and \<^verbatim>\<open>torch.stack\<close> of equally shaped tensors.\<close>

definition select :: "nat \<Rightarrow> tensor \<Rightarrow> tensor" where
  "select b x = \<lparr>shape = tl (shape x), ent = (\<lambda>idx. ent x (b # idx))\<rparr>"

definition stack :: "tensor list \<Rightarrow> error + tensor" where
  "stack ts =
     (if ts = [] then Inl RuntimeError
      else Inr \<lparr>shape = length ts # shape (hd ts),
                ent = (\<lambda>idx. ent (ts ! hd idx) (tl idx))\<rparr>)"

fun sequence :: "(error + 'a) list \<Rightarrow> error + 'a list" where
  "sequence [] = Inr []"
| "sequence (m # ms) = err_bind m (\<lambda>v. err_bind (sequence ms) (\<lambda>vs. Inr (v # vs)))"

text \<open>
  The transform built in \<^verbatim>\<open>ResnetEncoder.__init__\<close>: every image of the batch is
  rescaled, then normalised, and the results are stacked. A tensor without axes
  cannot be iterated.
\<close>

definition make_image_transform :: "real list \<Rightarrow> real list \<Rightarrow> tensor \<Rightarrow> error + tensor" where
  "make_image_transform mean_arg std_arg img =
     (if shape img = [] then Inl TypeError
      else err_bind
             (sequence (map (\<lambda>b. Normalize mean_arg std_arg (map_entries rescale (select b img)))
                            [0..<hd (shape img)]))
             stack)"

definition ResnetEncoder_pre_process :: "ResnetEncoder \<Rightarrow> tensor \<Rightarrow> error + tensor" where
  "ResnetEncoder_pre_process self x = image_transform self x"

definition ResnetEncoder_features :: "ResnetEncoder \<Rightarrow> tensor \<Rightarrow> error + tensor" where
  "ResnetEncoder_features self x =
     err_bind (ResnetEncoder_pre_process self x) (\<lambda>x.
     err_bind (conv1 (model self) x) (\<lambda>x.
     err_bind (bn1 (model self) x) (\<lambda>x.
     err_bind (relu (model self) x) (\<lambda>x.
     err_bind (maxpool (model self) x) (\<lambda>x.
     err_bind (layer1 (model self) x) (\<lambda>x.
     err_bind (layer2 (model self) x) (\<lambda>x.
     err_bind (layer3 (model self) x) (\<lambda>x.
     err_bind (layer4 (model self) x) (\<lambda>x.
     avgpool (model self) x)))))))))"

definition head_apply :: "(conv2d \<Rightarrow> tensor \<Rightarrow> error + tensor) \<Rightarrow> head \<Rightarrow> tensor \<Rightarrow> error + tensor" where
  "head_apply conv h x =
     (case h of LibraryFc f \<Rightarrow> f x | DenseHead l \<Rightarrow> DenseEncoderLayer_forward conv l x)"

definition ResnetEncoder_post_features ::
  "(conv2d \<Rightarrow> tensor \<Rightarrow> error + tensor) \<Rightarrow> ResnetEncoder \<Rightarrow> tensor \<Rightarrow> error + tensor" where
  "ResnetEncoder_post_features conv self x = head_apply conv (fc (model self)) x"

definition ResnetEncoder_forward ::
  "(conv2d \<Rightarrow> tensor \<Rightarrow> error + tensor) \<Rightarrow> ResnetEncoder \<Rightarrow> tensor \<Rightarrow> error + tensor" where
  "ResnetEncoder_forward conv self x =
     err_bind (ResnetEncoder_pre_process self x) (\<lambda>x.
     err_bind (ResnetEncoder_features self x) (\<lambda>features.
     head_apply conv (fc (model self)) features))"

text \<open>
  The forward contract in the words of the specification, for comparison with the
  code: preprocess, then the backbone stages on the preprocessed input, then the head.
\<close>

definition spec_backbone_stages :: "backbone \<Rightarrow> tensor \<Rightarrow> error + tensor" where
  "spec_backbone_stages m x =
     err_bind (conv1 m x) (\<lambda>x.
     err_bind (bn1 m x) (\<lambda>x.
     err_bind (relu m x) (\<lambda>x.
     err_bind (maxpool m x) (\<lambda>x.
     err_bind (layer1 m x) (\<lambda>x.
     err_bind (layer2 m x) (\<lambda>x.
     err_bind (layer3 m x) (\<lambda>x.
     err_bind (layer4 m x) (\<lambda>x.
     avgpool m x))))))))"

definition spec_ResnetEncoder_forward ::
  "(conv2d \<Rightarrow> tensor \<Rightarrow> error + tensor) \<Rightarrow> ResnetEncoder \<Rightarrow> tensor \<Rightarrow> error + tensor" where
  "spec_ResnetEncoder_forward conv self x =
     err_bind (ResnetEncoder_pre_process self x) (\<lambda>x.
     err_bind (spec_backbone_stages (model self) x) (\<lambda>features.
     head_apply conv (fc (model self)) features))"

section \<open>The process state and the collaborators\<close>

text \<open>
  What construction can touch outside the objects it builds: the framework's
  \<^verbatim>\<open>cudnn.benchmark\<close> flag, the position of the framework's default random generator
  (the number of variates drawn from it by this file's own calls), and a log of the
  calls made to collaborators outside this file.
\<close>

datatype ext_call =
    CallResnet resnet_kind cfgval norm_layer
  | CallGenerator cfgval cfgval cfgval cfgval nat
  | CallGetCkptPath string
  | CallTorchLoad string
  | CallLoadStateDict

record world =
  cudnn_benchmark :: bool
  rng_draws :: nat
  ext_calls :: "ext_call list"

type_synonym generator = "tensor \<Rightarrow> tensor \<Rightarrow> error + tensor"

record BigGANDecoderWrapper =
  map_to_class_embedding :: "layer list"
  decoder :: generator

record BigAE =
  be_deterministic :: cfgval
  encoder :: ResnetEncoder
  ae_decoder :: BigGANDecoderWrapper
  training :: bool

datatype state_dict = StateDict string

text \<open>
  The collaborators outside this file: the vision library's network constructors, the
  generator constructor, checkpoint resolution and loading, the framework's
  convolution, the initial parameters of linear layers, the variates of the default
  generator, and the value the distribution module gives a degenerate log-variance.
\<close>

record env =
  models_resnet :: "resnet_kind \<Rightarrow> cfgval \<Rightarrow> norm_layer \<Rightarrow> error + backbone"
  load_variable_latsize_generator ::
    "cfgval \<Rightarrow> cfgval \<Rightarrow> cfgval \<Rightarrow> cfgval \<Rightarrow> nat \<Rightarrow> error + generator"
  get_ckpt_path :: "string \<Rightarrow> error + string"
  torch_load :: "string \<Rightarrow> error + state_dict"
  load_state_dict :: "state_dict \<Rightarrow> BigAE \<Rightarrow> error + BigAE"
  conv2d_forward :: "conv2d \<Rightarrow> tensor \<Rightarrow> error + tensor"
  linear_params :: "nat \<Rightarrow> (nat \<Rightarrow> nat \<Rightarrow> real) \<times> (nat \<Rightarrow> real)"
  normal_stream :: "nat \<Rightarrow> real"
  degenerate_logvar :: real

text \<open>A tensor size given by a configuration value: an integer that is not negative.\<close>

fun as_size :: "cfgval \<Rightarrow> error + nat" where
  "as_size (CInt i) = (if 0 \<le> i then Inr (nat i) else Inl RuntimeError)"
| "as_size (CBool b) = Inl TypeError"
| "as_size (CStr s) = Inl TypeError"

text \<open>
  \<^verbatim>\<open>torch.randn\<close> with no generator argument: the next variates of the default
  generator, in row-major order, and the generator advanced past them.
\<close>

definition flat_index :: "nat list \<Rightarrow> nat list \<Rightarrow> nat" where
  "flat_index s idx = foldl (\<lambda>acc (d, i). acc * d + i) 0 (zip s idx)"

definition torch_randn :: "(nat \<Rightarrow> real) \<Rightarrow> nat list \<Rightarrow> world \<Rightarrow> tensor \<times> world" where
  "torch_randn stream s w =
     (\<lparr>shape = s, ent = (\<lambda>idx. stream (rng_draws w + flat_index s idx))\<rparr>,
      w\<lparr>rng_draws := rng_draws w + prod_list s\<rparr>)"

section \<open>Construction of the encoder\<close>

definition ResnetEncoder_get_spatial_size ::
  "env \<Rightarrow> ResnetEncoder \<Rightarrow> cfgval \<Rightarrow> world \<Rightarrow> (error + nat list) \<times> world" where
  "ResnetEncoder_get_spatial_size env self ipt_size w =
     (case as_size ipt_size of
        Inl e \<Rightarrow> (Inl e, w)
      | Inr n \<Rightarrow>
          (case torch_randn (normal_stream env) [1, 3, n, n] w of
             (x, w1) \<Rightarrow> (err_bind (ResnetEncoder_features self x) (\<lambda>t. Inr (shape t)), w1)))"

text \<open>
  \<^verbatim>\<open>ResnetEncoder.__init__\<close>, first part: the configuration is read, the
  normalisation layer and the network constructor are looked up, the network and the
  image transform are built.
\<close>

definition ResnetEncoder_init_backbone ::
  "env \<Rightarrow> config \<Rightarrow> world \<Rightarrow> (error + ResnetEncoder \<times> cfgval) \<times> world" where
  "ResnetEncoder_init_backbone env cfg w =
     (case err_bind (retrieve cfg ''Model/z_dim'' None) (\<lambda>z.
           err_bind (retrieve cfg ''Model/in_size'' None) (\<lambda>ipt_size.
           err_bind (retrieve cfg ''Model/type'' (Some (CStr ''resnet50''))) (\<lambda>ty.
           err_bind (retrieve cfg ''Model/pretrained'' None) (\<lambda>load_pretrained.
           err_bind (retrieve cfg ''Model/norm'' None) (\<lambda>tok.
           err_bind (dict_get norm_options tok) (\<lambda>nl.
           err_bind (dict_get possible_resnets ty) (\<lambda>kind.
           Inr (z, ipt_size, ty, load_pretrained, nl, kind)))))))) of
        Inl e \<Rightarrow> (Inl e, w)
      | Inr (z, ipt_size, ty, load_pretrained, nl, kind) \<Rightarrow>
          (let w1 = w\<lparr>ext_calls := ext_calls w @ [CallResnet kind load_pretrained nl]\<rparr> in
           case models_resnet env kind load_pretrained nl of
             Inl e \<Rightarrow> (Inl e, w1)
           | Inr m \<Rightarrow>
               (Inr (\<lparr>config = cfg, resnet_type = ty, z_dim = z, model = m,
                      image_transform =
                        make_image_transform (ResnetEncoder_mean cfg) (ResnetEncoder_std cfg)\<rparr>,
                     ipt_size), w1)))"

text \<open>
  Second part: the feature shape is probed, the assertion is checked, the last layer
  is replaced.
\<close>

definition ResnetEncoder_init_head ::
  "env \<Rightarrow> ResnetEncoder \<Rightarrow> cfgval \<Rightarrow> world \<Rightarrow> (error + ResnetEncoder) \<times> world" where
  "ResnetEncoder_init_head env self ipt_size w =
     (case ResnetEncoder_get_spatial_size env self ipt_size w of
        (Inl e, w1) \<Rightarrow> (Inl e, w1)
      | (Inr size_pre_fc, w1) \<Rightarrow>
          (err_bind (tuple_get size_pre_fc 2) (\<lambda>h.
           err_bind (tuple_get size_pre_fc 3) (\<lambda>wd.
           if h \<noteq> wd then Inl (AssertionError ''Output spatial size is not quadratic'')
           else err_bind (tuple_get size_pre_fc 1) (\<lambda>num_channels_pre_fc.
                err_bind (as_int (z_dim self)) (\<lambda>z.
                err_bind (DenseEncoderLayer_init 0 (int h) (2 * z)
                            (Some (int num_channels_pre_fc)) 1) (\<lambda>layer.
                Inr (self\<lparr>model := (model self)\<lparr>fc := DenseHead layer\<rparr>\<rparr>)))))), w1))"

definition ResnetEncoder_init :: "env \<Rightarrow> config \<Rightarrow> world \<Rightarrow> (error + ResnetEncoder) \<times> world" where
  "ResnetEncoder_init env cfg w =
     (case ResnetEncoder_init_backbone env cfg w of
        (Inl e, w1) \<Rightarrow> (Inl e, w1)
      | (Inr (self, ipt_size), w1) \<Rightarrow> ResnetEncoder_init_head env self ipt_size w1)"

section \<open>BigGANDecoderWrapper\<close>

definition BigGANDecoderWrapper_init ::
  "env \<Rightarrow> config \<Rightarrow> world \<Rightarrow> (error + BigGANDecoderWrapper) \<times> world" where
  "BigGANDecoderWrapper_init env cfg w =
     (case err_bind (retrieve cfg ''Model/z_dim'' None) (\<lambda>z.
           err_bind (retrieve cfg ''Model/in_size'' (Some (CInt 128))) (\<lambda>image_size.
           err_bind (retrieve cfg ''Model/use_actnorm_in_dec'' (Some (CBool False))) (\<lambda>use_actnorm.
           err_bind (retrieve cfg ''Model/pretrained'' (Some (CBool True))) (\<lambda>pretrained.
           err_bind (as_size z) (\<lambda>n.
           Inr (z, image_size, use_actnorm, pretrained,
                ClassUp_init (linear_params env) n 2 (2 * 1000) False (Some 1000))))))) of
        Inl e \<Rightarrow> (Inl e, w)
      | Inr (z, image_size, use_actnorm, pretrained, class_up) \<Rightarrow>
          (let w1 = w\<lparr>ext_calls := ext_calls w
                        @ [CallGenerator image_size z pretrained use_actnorm 1000]\<rparr> in
           case load_variable_latsize_generator env image_size z pretrained use_actnorm 1000 of
             Inl e \<Rightarrow> (Inl e, w1)
           | Inr g \<Rightarrow> (Inr \<lparr>map_to_class_embedding = class_up, decoder = g\<rparr>, w1)))"

definition BigGANDecoderWrapper_forward ::
  "BigGANDecoderWrapper \<Rightarrow> tensor \<Rightarrow> tensor option \<Rightarrow> error + tensor" where
  "BigGANDecoderWrapper_forward self x labels =
     err_bind (ClassUp_forward (map_to_class_embedding self) x) (\<lambda>emb. decoder self x emb)"

section \<open>The latent distribution\<close>

record DiagonalGaussian =
  dist_mean :: tensor
  dist_logvar :: tensor
  dist_deterministic :: bool

text \<open>
  Modelled from the spec: the module \<^verbatim>\<open>autoencoders.distributions\<close> with the class
  \<^verbatim>\<open>DiagonalGaussianDistribution\<close> is missing from the sources. The specification
  says: the distribution has a mean and a log-variance of equal shape, the two halves
  of the encoder's output along the channel axis; with the deterministic flag set the
  log-variance is forced to a canonical degenerate value (\<open>degenerate\<close>, not given by
  the specification) and sampling always returns the mean. Sampling otherwise adds
  the noise scaled by the standard deviation.
\<close>

definition DiagonalGaussianDistribution ::
  "real \<Rightarrow> tensor \<Rightarrow> cfgval \<Rightarrow> error + DiagonalGaussian" where
  "DiagonalGaussianDistribution degenerate parameters deterministic =
     (if length (shape parameters) < 2 then Inl IndexError
      else
        (let c = shape parameters ! 1 div 2;
             half = (shape parameters)[1 := c]
         in Inr \<lparr>dist_mean = \<lparr>shape = half, ent = ent parameters\<rparr>,
                 dist_logvar =
                   (if truthy deterministic then full half degenerate
                    else \<lparr>shape = half,
                          ent = (\<lambda>idx. ent parameters (idx[1 := idx ! 1 + c]))\<rparr>),
                 dist_deterministic = truthy deterministic\<rparr>))"

definition sample :: "DiagonalGaussian \<Rightarrow> tensor \<Rightarrow> tensor" where
  "sample d noise =
     (if dist_deterministic d then dist_mean d
      else \<lparr>shape = shape (dist_mean d),
            ent = (\<lambda>idx. ent (dist_mean d) idx
                          + exp (ent (dist_logvar d) idx / 2) * ent noise idx)\<rparr>)"

section \<open>BigAE\<close>

definition BigAE_init :: "env \<Rightarrow> config \<Rightarrow> world \<Rightarrow> (error + BigAE) \<times> world" where
  "BigAE_init env cfg w =
     (let w1 = w\<lparr>cudnn_benchmark := True\<rparr> in
      case retrieve cfg ''Model/deterministic'' (Some (CBool False)) of
        Inl e \<Rightarrow> (Inl e, w1)
      | Inr det \<Rightarrow>
          (case ResnetEncoder_init env cfg w1 of
             (Inl e, w2) \<Rightarrow> (Inl e, w2)
           | (Inr enc, w2) \<Rightarrow>
               (case BigGANDecoderWrapper_init env cfg w2 of
                  (Inl e, w3) \<Rightarrow> (Inl e, w3)
                | (Inr dec, w3) \<Rightarrow>
                    (Inr \<lparr>be_deterministic = det, encoder = enc, ae_decoder = dec,
                          training = True\<rparr>, w3))))"

definition model_config :: "bool \<Rightarrow> int \<Rightarrow> string \<Rightarrow> bool \<Rightarrow> string \<Rightarrow> bool \<Rightarrow> int \<Rightarrow> config" where
  "model_config deterministic in_size norm_tok pretrained ty use_actnorm_in_dec z =
     map_of [(''Model/deterministic'', CBool deterministic),
             (''Model/in_size'', CInt in_size),
             (''Model/norm'', CStr norm_tok),
             (''Model/pretrained'', CBool pretrained),
             (''Model/type'', CStr ty),
             (''Model/use_actnorm_in_dec'', CBool use_actnorm_in_dec),
             (''Model/z_dim'', CInt z)]"

definition config_dict :: "(string \<times> config) list" where
  "config_dict =
     [(''animals'', model_config False 128 ''an'' False ''resnet101'' True 128),
      (''animalfaces'', model_config False 128 ''bn'' False ''resnet101'' False 128)]"

definition ckpt_dict :: "(string \<times> string) list" where
  "ckpt_dict = [(''animals'', ''bigae_animals''), (''animalfaces'', ''bigae_animalfaces'')]"

definition BigAE_from_pretrained :: "env \<Rightarrow> string \<Rightarrow> world \<Rightarrow> (error + BigAE) \<times> world" where
  "BigAE_from_pretrained env name w =
     (case map_of config_dict name of
        None \<Rightarrow> (Inl (NotImplementedError name), w)
      | Some cfg \<Rightarrow>
          (case BigAE_init env cfg w of
             (Inl e, w1) \<Rightarrow> (Inl e, w1)
           | (Inr m, w1) \<Rightarrow>
               (case dict_get ckpt_dict (CStr name) of
                  Inl e \<Rightarrow> (Inl e, w1)
                | Inr ckpt_name \<Rightarrow>
                    (let w2 = w1\<lparr>ext_calls := ext_calls w1 @ [CallGetCkptPath ckpt_name]\<rparr> in
                     case get_ckpt_path env ckpt_name of
                       Inl e \<Rightarrow> (Inl e, w2)
                     | Inr ckpt \<Rightarrow>
                         (let w3 = w2\<lparr>ext_calls := ext_calls w2 @ [CallTorchLoad ckpt]\<rparr> in
                          case torch_load env ckpt of
                            Inl e \<Rightarrow> (Inl e, w3)
                          | Inr sd \<Rightarrow>
                              (let w4 = w3\<lparr>ext_calls := ext_calls w3 @ [CallLoadStateDict]\<rparr> in
                               case load_state_dict env sd m of
                                 Inl e \<Rightarrow> (Inl e, w4)
                               | Inr m1 \<Rightarrow> (Inr (m1\<lparr>training := False\<rparr>), w4)))))))"

definition BigAE_encode :: "env \<Rightarrow> BigAE \<Rightarrow> tensor \<Rightarrow> error + DiagonalGaussian" where
  "BigAE_encode env self input =
     err_bind (ResnetEncoder_forward (conv2d_forward env) (encoder self) input) (\<lambda>h.
     DiagonalGaussianDistribution (degenerate_logvar env) h (be_deterministic self))"

definition BigAE_decode :: "BigAE \<Rightarrow> tensor \<Rightarrow> error + tensor" where
  "BigAE_decode self input =
     BigGANDecoderWrapper_forward (ae_decoder self) (squeeze_last (squeeze_last input)) None"

section \<open>A small environment for concrete runs\<close>

text \<open>
  Collaborators that do as little as possible: every stage of the network passes its
  input on, except the final pooling, which returns a feature map of the given
  height and width; the convolution and the generator pass their input on; no
  collaborator fails.
\<close>

definition pool_to :: "nat \<Rightarrow> nat \<Rightarrow> tensor \<Rightarrow> error + tensor" where
  "pool_to h wd x = Inr \<lparr>shape = take 2 (shape x) @ [h, wd], ent = (\<lambda>idx. ent x (take 2 idx @ [0, 0]))\<rparr>"

definition small_backbone :: "(tensor \<Rightarrow> error + tensor) \<Rightarrow> backbone" where
  "small_backbone pool =
     \<lparr>conv1 = Inr, bn1 = Inr, relu = Inr, maxpool = Inr,
      layer1 = Inr, layer2 = Inr, layer3 = Inr, layer4 = Inr,
      avgpool = pool, fc = LibraryFc Inr\<rparr>"

definition small_env :: "(tensor \<Rightarrow> error + tensor) \<Rightarrow> env" where
  "small_env pool =
     \<lparr>models_resnet = (\<lambda>kind pretrained nl. Inr (small_backbone pool)),
      load_variable_latsize_generator =
        (\<lambda>image_size z pretrained use_actnorm n_class. Inr (\<lambda>z emb. Inr emb)),
      get_ckpt_path = (\<lambda>name. Inr name),
      torch_load = (\<lambda>path. Inr (StateDict path)),
      load_state_dict = (\<lambda>sd m. Inr m),
      conv2d_forward = (\<lambda>c x. Inr x),
      linear_params = zero_params,
      normal_stream = (\<lambda>k. 0),
      degenerate_logvar = 0\<rparr>"

definition small_config :: "bool \<Rightarrow> config" where
  "small_config det = model_config det 1 ''an'' False ''resnet101'' False 1"

text \<open>
  The encoder and the model that the constructors return in this environment for
  \<open>small_config\<close>, with a final pooling to 1 by 1.
\<close>

definition small_encoder :: "bool \<Rightarrow> ResnetEncoder" where
  "small_encoder det =
     \<lparr>config = small_config det,
      resnet_type = CStr ''resnet101'',
      z_dim = CInt 1,
      model = (small_backbone (pool_to 1 1))\<lparr>fc := DenseHead
                \<lparr>scale = 0, wm = 1, in_channels = 3, out_channels = 2, kernel_size = 1,
                 sub_layers = [\<lparr>conv_in_channels = 3, conv_out_channels = 2,
                                conv_kernel_size = 1, conv_stride = 1, conv_padding = 0,
                                conv_bias = True\<rparr>]\<rparr>\<rparr>,
      image_transform =
        make_image_transform (ResnetEncoder_mean (small_config det))
          (ResnetEncoder_std (small_config det))\<rparr>"

definition small_model :: "bool \<Rightarrow> BigAE" where
  "small_model det =
     \<lparr>be_deterministic = CBool det,
      encoder = small_encoder det,
      ae_decoder = \<lparr>map_to_class_embedding = ClassUp_init zero_params 1 2 (2 * 1000) False (Some 1000),
                    decoder = (\<lambda>z emb. Inr emb)\<rparr>,
      training = True\<rparr>"

definition entry_of :: "error + tensor \<Rightarrow> nat list \<Rightarrow> error + real" where
  "entry_of r idx = (case r of Inl e \<Rightarrow> Inl e | Inr t \<Rightarrow> Inr (ent t idx))"

definition world0 :: world where
  "world0 = \<lparr>cudnn_benchmark = False, rng_draws = 0, ext_calls = []\<rparr>"

section \<open>Facts\<close>


subsection \<open>ClassUp returns a probability distribution\<close>











subsection \<open>The decoder wrapper\<close>

text \<open>
  Claim C8. \<^verbatim>\<open>BigGANDecoderWrapper.forward\<close> returns the same result for every value
  of the \<open>labels\<close> argument: the class embedding is computed from the latent, and the
  generator is called with the latent and that embedding.
\<close>

theorem BigGANDecoderWrapper_forward_ignores_labels:
  "BigGANDecoderWrapper_forward self x labels = BigGANDecoderWrapper_forward self x labels'
   \<and> BigGANDecoderWrapper_forward self x labels
       = err_bind (ClassUp_forward (map_to_class_embedding self) x) (decoder self x)"
  by (simp add: BigGANDecoderWrapper_forward_def)

subsection \<open>The properties of the encoder\<close>

text \<open>
  Claim C10. The properties \<open>mean\<close>, \<open>std\<close> and \<open>input_size\<close> of every encoder are
  the constants [0.485, 0.456, 0.406], [0.229, 0.224, 0.225] and [3, 224, 224],
  whatever its configuration is, also when the configured input size is 128.
\<close>

theorem ResnetEncoder_properties_constant:
  fixes self :: ResnetEncoder
  shows "ResnetEncoder_mean self = [0.485, 0.456, 0.406]
   \<and> ResnetEncoder_std self = [0.229, 0.224, 0.225]
   \<and> ResnetEncoder_input_size self = [3, 224, 224]
   \<and> ResnetEncoder_input_size (self\<lparr>config := (config self)(''Model/in_size'' \<mapsto> CInt 128)\<rparr>)
       = [3, 224, 224]"
  by (simp add: ResnetEncoder_mean_def ResnetEncoder_std_def ResnetEncoder_input_size_def)

subsection \<open>The dense encoder head\<close>

text \<open>
  Claim C7. A constructed \<^verbatim>\<open>DenseEncoderLayer\<close> has the given \<open>in_channels\<close> as its
  input-channel count when one is given, and otherwise
  \<open>int(width_multiplier * 64 * min(2 ** (scale - 1), 16))\<close>; its output-channel
  count is \<open>out_size\<close>; its only sub-layer is a convolution with kernel size
  \<open>spatial_size\<close>, stride 1, padding 0 and a bias. Construction succeeds whenever
  the kernel size and the two channel counts are not negative.
\<close>

theorem DenseEncoderLayer_init_fields:
  "(DenseEncoderLayer_init scale_arg spatial_size out_size in_channels_arg width_multiplier = Inr l
     \<longrightarrow> in_channels l = (case in_channels_arg of
                            Some c \<Rightarrow> c
                          | None \<Rightarrow> py_int (width_multiplier * 64 * min (power_int 2 (scale_arg - 1)) 16))
         \<and> out_channels l = out_size
         \<and> sub_layers l = [\<lparr>conv_in_channels = in_channels l, conv_out_channels = out_size,
                             conv_kernel_size = spatial_size, conv_stride = 1, conv_padding = 0,
                             conv_bias = True\<rparr>])
   \<and> (0 \<le> spatial_size \<and> 0 \<le> out_size
        \<and> 0 \<le> (case in_channels_arg of
                    Some c \<Rightarrow> c
                  | None \<Rightarrow> py_int (width_multiplier * 64 * min (power_int 2 (scale_arg - 1)) 16))
      \<longrightarrow> (\<exists>l. DenseEncoderLayer_init scale_arg spatial_size out_size in_channels_arg
                  width_multiplier = Inr l))"
  by (auto simp: DenseEncoderLayer_init_def DenseEncoderLayer_build_def Let_def split: if_splits)

theorem DenseEncoderLayer_init_fields_witness:
  "\<exists>l. DenseEncoderLayer_init 3 4 256 None 1 = Inr l
       \<and> in_channels l = 256 \<and> out_channels l = 256
       \<and> sub_layers l = [\<lparr>conv_in_channels = 256, conv_out_channels = 256,
                           conv_kernel_size = 4, conv_stride = 1, conv_padding = 0,
                           conv_bias = True\<rparr>]"
proof -
  have "py_int (1 * 64 * min (power_int 2 (3 - 1)) 16) = 256"
    by (simp add: py_int_def)
  moreover obtain l where "DenseEncoderLayer_init 3 4 256 None 1 = Inr l"
    using DenseEncoderLayer_init_fields [of 3 4 256 None 1] by (auto simp: py_int_def)
  ultimately show ?thesis
    using DenseEncoderLayer_init_fields [of 3 4 256 None 1 l] by simp
qed

subsection \<open>What construction does to the process state\<close>

lemma get_spatial_size_world:
  "cudnn_benchmark (snd (ResnetEncoder_get_spatial_size env self ipt_size w)) = cudnn_benchmark w
   \<and> ext_calls (snd (ResnetEncoder_get_spatial_size env self ipt_size w)) = ext_calls w
   \<and> (rng_draws (snd (ResnetEncoder_get_spatial_size env self ipt_size w)) = rng_draws w
        \<or> (\<exists>n. ipt_size = CInt (int n)
              \<and> rng_draws (snd (ResnetEncoder_get_spatial_size env self ipt_size w))
                  = rng_draws w + 3 * n * n))"
proof (cases "as_size ipt_size")
  case (Inl e)
  then show ?thesis by (simp add: ResnetEncoder_get_spatial_size_def)
next
  case (Inr n)
  then have "ipt_size = CInt (int n)"
    by (cases ipt_size) (auto split: if_splits)
  with Inr show ?thesis
    by (simp add: ResnetEncoder_get_spatial_size_def torch_randn_def)
qed

lemma init_head_world:
  "cudnn_benchmark (snd (ResnetEncoder_init_head env self ipt_size w)) = cudnn_benchmark w
   \<and> ext_calls (snd (ResnetEncoder_init_head env self ipt_size w)) = ext_calls w
   \<and> (rng_draws (snd (ResnetEncoder_init_head env self ipt_size w)) = rng_draws w
        \<or> (\<exists>n. ipt_size = CInt (int n)
              \<and> rng_draws (snd (ResnetEncoder_init_head env self ipt_size w))
                  = rng_draws w + 3 * n * n))"
proof -
  obtain r w1 where g: "ResnetEncoder_get_spatial_size env self ipt_size w = (r, w1)"
    by (cases "ResnetEncoder_get_spatial_size env self ipt_size w")
  have "snd (ResnetEncoder_init_head env self ipt_size w) = w1"
    by (cases r) (simp_all add: ResnetEncoder_init_head_def g)
  with get_spatial_size_world [of env self ipt_size w] g show ?thesis by simp
qed

lemma init_backbone_world:
  "cudnn_benchmark (snd (ResnetEncoder_init_backbone env cfg w)) = cudnn_benchmark w
   \<and> rng_draws (snd (ResnetEncoder_init_backbone env cfg w)) = rng_draws w
   \<and> (\<exists>rest. ext_calls (snd (ResnetEncoder_init_backbone env cfg w)) = ext_calls w @ rest)"
  by (simp add: ResnetEncoder_init_backbone_def Let_def split: sum.splits prod.splits)

lemma init_backbone_in_size:
  "ResnetEncoder_init_backbone env cfg w = (Inr (self, ipt_size), w1)
   \<Longrightarrow> cfg ''Model/in_size'' = Some ipt_size"
  by (auto simp: ResnetEncoder_init_backbone_def Let_def err_bind_def retrieve_def
      split: sum.splits prod.splits option.splits)


lemma ResnetEncoder_init_world:
  "cudnn_benchmark (snd (ResnetEncoder_init env cfg w)) = cudnn_benchmark w
   \<and> (\<exists>rest. ext_calls (snd (ResnetEncoder_init env cfg w)) = ext_calls w @ rest)
   \<and> (rng_draws (snd (ResnetEncoder_init env cfg w)) = rng_draws w
        \<or> (\<exists>n. cfg ''Model/in_size'' = Some (CInt (int n))
              \<and> rng_draws (snd (ResnetEncoder_init env cfg w)) = rng_draws w + 3 * n * n))"
proof -
  obtain r w1 where b: "ResnetEncoder_init_backbone env cfg w = (r, w1)"
    by (cases "ResnetEncoder_init_backbone env cfg w")
  have bw: "cudnn_benchmark w1 = cudnn_benchmark w" "rng_draws w1 = rng_draws w"
    "\<exists>rest. ext_calls w1 = ext_calls w @ rest"
    using init_backbone_world [of env cfg w] b by simp_all
  show ?thesis
  proof (cases r)
    case (Inl e)
    then show ?thesis using b bw by (simp add: ResnetEncoder_init_def)
  next
    case (Inr p)
    obtain self ipt_size where p: "p = (self, ipt_size)" by (cases p)
    have i: "ResnetEncoder_init env cfg w = ResnetEncoder_init_head env self ipt_size w1"
      by (simp add: ResnetEncoder_init_def b Inr p)
    have "cfg ''Model/in_size'' = Some ipt_size"
      using init_backbone_in_size b Inr p by blast
    then show ?thesis
      using init_head_world [of env self ipt_size w1] bw by (auto simp: i)
  qed
qed

lemma BigGANDecoderWrapper_init_world:
  "cudnn_benchmark (snd (BigGANDecoderWrapper_init env cfg w)) = cudnn_benchmark w
   \<and> rng_draws (snd (BigGANDecoderWrapper_init env cfg w)) = rng_draws w
   \<and> (\<exists>rest. ext_calls (snd (BigGANDecoderWrapper_init env cfg w)) = ext_calls w @ rest)"
  by (simp add: BigGANDecoderWrapper_init_def Let_def split: sum.splits prod.splits)

lemma BigAE_init_world:
  "cudnn_benchmark (snd (BigAE_init env cfg w))
   \<and> (\<exists>rest. ext_calls (snd (BigAE_init env cfg w)) = ext_calls w @ rest)
   \<and> (rng_draws (snd (BigAE_init env cfg w)) = rng_draws w
        \<or> (\<exists>n. cfg ''Model/in_size'' = Some (CInt (int n))
              \<and> rng_draws (snd (BigAE_init env cfg w)) = rng_draws w + 3 * n * n))"
proof -
  let ?w1 = "w\<lparr>cudnn_benchmark := True\<rparr>"
  obtain det where det: "retrieve cfg ''Model/deterministic'' (Some (CBool False)) = Inr det"
    by (cases "cfg ''Model/deterministic''") (simp_all add: retrieve_def)
  obtain r w2 where e: "ResnetEncoder_init env cfg ?w1 = (r, w2)"
    by (cases "ResnetEncoder_init env cfg ?w1")
  have ew: "cudnn_benchmark w2" "\<exists>rest. ext_calls w2 = ext_calls w @ rest"
    "rng_draws w2 = rng_draws w
     \<or> (\<exists>n. cfg ''Model/in_size'' = Some (CInt (int n)) \<and> rng_draws w2 = rng_draws w + 3 * n * n)"
    using ResnetEncoder_init_world [of env cfg ?w1] e by simp_all
  show ?thesis
  proof (cases r)
    case (Inl err)
    then show ?thesis using ew by (simp add: BigAE_init_def det e)
  next
    case (Inr enc)
    obtain r3 w3 where d: "BigGANDecoderWrapper_init env cfg w2 = (r3, w3)"
      by (cases "BigGANDecoderWrapper_init env cfg w2")
    have dw: "cudnn_benchmark w3 = cudnn_benchmark w2" "rng_draws w3 = rng_draws w2"
      "\<exists>rest. ext_calls w3 = ext_calls w2 @ rest"
      using BigGANDecoderWrapper_init_world [of env cfg w2] d by simp_all
    have "snd (BigAE_init env cfg w) = w3"
      by (cases r3) (simp_all add: BigAE_init_def det e Inr d)
    then show ?thesis using ew dw by auto
  qed
qed


lemma BigAE_from_pretrained_unknown:
  "name \<notin> {''animals'', ''animalfaces''}
   \<Longrightarrow> BigAE_from_pretrained env name w = (Inl (NotImplementedError name), w)"
  by (simp add: BigAE_from_pretrained_def config_dict_def)

lemma BigAE_from_pretrained_world:
  assumes "map_of config_dict name = Some cfg"
  shows "cudnn_benchmark (snd (BigAE_from_pretrained env name w))
           = cudnn_benchmark (snd (BigAE_init env cfg w))
       \<and> rng_draws (snd (BigAE_from_pretrained env name w))
           = rng_draws (snd (BigAE_init env cfg w))
       \<and> (\<exists>rest. ext_calls (snd (BigAE_from_pretrained env name w))
                    = ext_calls (snd (BigAE_init env cfg w)) @ rest)"
  using assms
  by (simp add: BigAE_from_pretrained_def Let_def split: sum.splits prod.splits)

lemma preset_backbone_call:
  assumes "name \<in> {''animals'', ''animalfaces''}"
  shows "\<exists>cfg. map_of config_dict name = Some cfg
           \<and> (\<exists>rest. ext_calls (snd (ResnetEncoder_init_backbone env cfg w))
                  = ext_calls w @ CallResnet resnet101 (CBool False)
                                    (if name = ''animals'' then ActNorm else BatchNorm2d) # rest)"
  using assms
  by (auto simp: config_dict_def model_config_def ResnetEncoder_init_backbone_def retrieve_def
      err_bind_def dict_get_def norm_options_def possible_resnets_def Let_def
      split: sum.splits)


lemma ResnetEncoder_init_log:
  "ext_calls (snd (ResnetEncoder_init env cfg w))
   = ext_calls (snd (ResnetEncoder_init_backbone env cfg w))"
proof -
  obtain r w1 where b: "ResnetEncoder_init_backbone env cfg w = (r, w1)"
    by (cases "ResnetEncoder_init_backbone env cfg w")
  show ?thesis
  proof (cases r)
    case (Inl e)
    then show ?thesis by (simp add: ResnetEncoder_init_def b)
  next
    case (Inr p)
    obtain self ipt_size where p: "p = (self, ipt_size)" by (cases p)
    show ?thesis
      using init_head_world [of env self ipt_size w1]
      by (simp add: ResnetEncoder_init_def b Inr p)
  qed
qed

lemma BigAE_init_log:
  "\<exists>rest. ext_calls (snd (BigAE_init env cfg w))
     = ext_calls (snd (ResnetEncoder_init_backbone env cfg (w\<lparr>cudnn_benchmark := True\<rparr>))) @ rest"
proof -
  let ?w1 = "w\<lparr>cudnn_benchmark := True\<rparr>"
  obtain det where det: "retrieve cfg ''Model/deterministic'' (Some (CBool False)) = Inr det"
    by (cases "cfg ''Model/deterministic''") (simp_all add: retrieve_def)
  obtain r w2 where e: "ResnetEncoder_init env cfg ?w1 = (r, w2)"
    by (cases "ResnetEncoder_init env cfg ?w1")
  have l: "ext_calls w2 = ext_calls (snd (ResnetEncoder_init_backbone env cfg ?w1))"
    using ResnetEncoder_init_log [of env cfg ?w1] e by simp
  show ?thesis
  proof (cases r)
    case (Inl err)
    then show ?thesis using l by (simp add: BigAE_init_def det e)
  next
    case (Inr enc)
    obtain r3 w3 where d: "BigGANDecoderWrapper_init env cfg w2 = (r3, w3)"
      by (cases "BigGANDecoderWrapper_init env cfg w2")
    have "snd (BigAE_init env cfg w) = w3"
      by (cases r3) (simp_all add: BigAE_init_def det e Inr d)
    then show ?thesis
      using BigGANDecoderWrapper_init_world [of env cfg w2] d l by auto
  qed
qed

text \<open>
  Claim C4. For every preset name other than "animals" and "animalfaces",
  \<^verbatim>\<open>BigAE.from_pretrained\<close> raises \<^verbatim>\<open>NotImplementedError\<close> and leaves the process
  state as it was: no constructor has run, no collaborator has been called. For
  those two names it starts building a model: the benchmark flag is set and the first
  collaborator called is the constructor of the 101-layer network, with the
  preset's normalisation layer.
\<close>

theorem BigAE_from_pretrained_closed_set:
  "(name \<notin> {''animals'', ''animalfaces''}
      \<longrightarrow> BigAE_from_pretrained env name w = (Inl (NotImplementedError name), w))
   \<and> (name \<in> {''animals'', ''animalfaces''}
      \<longrightarrow> cudnn_benchmark (snd (BigAE_from_pretrained env name w))
          \<and> (\<exists>rest. ext_calls (snd (BigAE_from_pretrained env name w))
                = ext_calls w @ CallResnet resnet101 (CBool False)
                                  (if name = ''animals'' then ActNorm else BatchNorm2d) # rest))"
proof (intro conjI impI)
  assume "name \<notin> {''animals'', ''animalfaces''}"
  then show "BigAE_from_pretrained env name w = (Inl (NotImplementedError name), w)"
    by (rule BigAE_from_pretrained_unknown)
next
  assume n: "name \<in> {''animals'', ''animalfaces''}"
  let ?w1 = "w\<lparr>cudnn_benchmark := True\<rparr>"
  let ?c = "CallResnet resnet101 (CBool False) (if name = ''animals'' then ActNorm else BatchNorm2d)"
  from preset_backbone_call [OF n, of env ?w1]
  obtain cfg r1 where cfg: "map_of config_dict name = Some cfg"
    and r1: "ext_calls (snd (ResnetEncoder_init_backbone env cfg ?w1)) = ext_calls w @ ?c # r1"
    by auto
  obtain r2 where r2: "ext_calls (snd (BigAE_init env cfg w))
      = ext_calls (snd (ResnetEncoder_init_backbone env cfg ?w1)) @ r2"
    using BigAE_init_log [of env cfg w] by blast
  obtain r3 where r3: "ext_calls (snd (BigAE_from_pretrained env name w))
      = ext_calls (snd (BigAE_init env cfg w)) @ r3"
    using BigAE_from_pretrained_world [OF cfg, of env w] by blast
  show "cudnn_benchmark (snd (BigAE_from_pretrained env name w))"
    using BigAE_from_pretrained_world [OF cfg, of env w] BigAE_init_world [of env cfg w] by simp
  show "\<exists>rest. ext_calls (snd (BigAE_from_pretrained env name w)) = ext_calls w @ ?c # rest"
    by (simp add: r1 r2 r3)
qed

theorem BigAE_from_pretrained_closed_set_witness:
  "BigAE_from_pretrained (small_env (pool_to 1 1)) ''unknown'' world0
     = (Inl (NotImplementedError ''unknown''), world0)
   \<and> cudnn_benchmark (snd (BigAE_from_pretrained (small_env (pool_to 1 1)) ''animals'' world0))
   \<and> (\<exists>rest. ext_calls (snd (BigAE_from_pretrained (small_env (pool_to 1 1)) ''animals'' world0))
         = ext_calls world0 @ CallResnet resnet101 (CBool False) ActNorm # rest)"
  using BigAE_from_pretrained_closed_set [of "''unknown''" "small_env (pool_to 1 1)" world0]
    BigAE_from_pretrained_closed_set [of "''animals''" "small_env (pool_to 1 1)" world0]
  by simp



subsection \<open>Runs in the small environment\<close>

lemma sequence_map_Inr:
  "(\<And>b. b \<in> set bs \<Longrightarrow> f b = Inr (g b)) \<Longrightarrow> sequence (map f bs) = Inr (map g bs)"
  by (induction bs) (simp_all add: err_bind_def)

lemma Normalize_image:
  assumes "shape t = [3, h, wd]"
  shows "Normalize (ResnetEncoder_mean self) (ResnetEncoder_std self') t
         = Inr \<lparr>shape = [3, h, wd],
                 ent = (\<lambda>idx. (ent t idx - ResnetEncoder_mean self ! (idx ! 0))
                               / ResnetEncoder_std self' ! (idx ! 0))\<rparr>"
  by (simp add: Normalize_def Let_def assms ResnetEncoder_mean_def ResnetEncoder_std_def)

lemma make_image_transform_batch:
  assumes "shape x = [b, 3, h, wd]" and "0 < b"
  shows "\<exists>y. make_image_transform (ResnetEncoder_mean self) (ResnetEncoder_std self') x = Inr y
           \<and> shape y = [b, 3, h, wd]
           \<and> (\<forall>i<b. \<forall>js. ent y (i # js)
                 = (rescale (ent x (i # js)) - ResnetEncoder_mean self ! (js ! 0))
                   / ResnetEncoder_std self' ! (js ! 0))"
proof -
  let ?m = "ResnetEncoder_mean self" and ?s = "ResnetEncoder_std self'"
  let ?g = "\<lambda>k. \<lparr>shape = [3, h, wd],
                   ent = (\<lambda>idx. (rescale (ent x (k # idx)) - ?m ! (idx ! 0)) / ?s ! (idx ! 0))\<rparr>"
  have norm: "Normalize ?m ?s (map_entries rescale (select k x)) = Inr (?g k)" for k
  proof -
    have "shape (map_entries rescale (select k x)) = [3, h, wd]"
      by (simp add: map_entries_def select_def assms(1))
    from Normalize_image [OF this, of self self'] show ?thesis
      by (simp add: map_entries_def select_def)
  qed
  have seq: "sequence (map (\<lambda>k. Normalize ?m ?s (map_entries rescale (select k x))) [0..<b])
             = Inr (map ?g [0..<b])"
    by (rule sequence_map_Inr) (rule norm)
  have ne: "map ?g [0..<b] \<noteq> []"
    using assms(2) by simp
  have hd0: "hd (map ?g [0..<b]) = ?g 0"
    using assms(2) by (simp add: hd_map upt_conv_Cons)
  let ?y = "\<lparr>shape = length (map ?g [0..<b]) # shape (hd (map ?g [0..<b])),
              ent = (\<lambda>idx. ent (map ?g [0..<b] ! hd idx) (tl idx))\<rparr>"
  have "make_image_transform ?m ?s x = Inr ?y"
    using ne by (simp add: make_image_transform_def assms(1) seq err_bind_def stack_def del: map_is_Nil_conv)
  moreover have "shape ?y = [b, 3, h, wd]"
    by (simp add: hd0)
  moreover have "\<forall>i<b. \<forall>js. ent ?y (i # js) = (rescale (ent x (i # js)) - ?m ! (js ! 0)) / ?s ! (js ! 0)"
    by simp
  ultimately show ?thesis by blast
qed


lemma get_spatial_size_probe:
  "ResnetEncoder_get_spatial_size env self (CInt (int n)) w
   = (err_bind (ResnetEncoder_features self (fst (torch_randn (normal_stream env) [1, 3, n, n] w)))
        (\<lambda>t. Inr (shape t)),
      w\<lparr>rng_draws := rng_draws w + 3 * n * n\<rparr>)"
  by (simp add: ResnetEncoder_get_spatial_size_def torch_randn_def)

lemma small_backbone_features:
  assumes "image_transform self = make_image_transform (ResnetEncoder_mean a) (ResnetEncoder_std a')"
    and "model self = (small_backbone pool)\<lparr>fc := f\<rparr>" and "shape x = [b, 3, h, wd]" and "0 < b"
  shows "\<exists>y. ResnetEncoder_pre_process self x = Inr y \<and> shape y = [b, 3, h, wd]
           \<and> ResnetEncoder_features self x = pool y"
proof -
  obtain y where "make_image_transform (ResnetEncoder_mean a) (ResnetEncoder_std a') x = Inr y"
    "shape y = [b, 3, h, wd]"
    using make_image_transform_batch [OF assms(3,4), of a a'] by blast
  then show ?thesis
    by (simp add: ResnetEncoder_features_def ResnetEncoder_pre_process_def assms(1,2)
        small_backbone_def err_bind_def)
qed

lemma small_env_init_backbone:
  "ResnetEncoder_init_backbone (small_env pool)
     (model_config det (int n) ''an'' pre ''resnet101'' act z) w
   = (Inr (\<lparr>config = model_config det (int n) ''an'' pre ''resnet101'' act z,
            resnet_type = CStr ''resnet101'', z_dim = CInt z, model = small_backbone pool,
            image_transform =
              make_image_transform
                (ResnetEncoder_mean (model_config det (int n) ''an'' pre ''resnet101'' act z))
                (ResnetEncoder_std (model_config det (int n) ''an'' pre ''resnet101'' act z))\<rparr>,
           CInt (int n)),
      w\<lparr>ext_calls := ext_calls w @ [CallResnet resnet101 (CBool pre) ActNorm]\<rparr>)"
  by (simp add: ResnetEncoder_init_backbone_def model_config_def retrieve_def err_bind_def
      dict_get_def norm_options_def possible_resnets_def small_env_def Let_def)

lemma small_env_init_head:
  assumes "image_transform self = make_image_transform (ResnetEncoder_mean a) (ResnetEncoder_std a')"
    and m: "model self = small_backbone (pool_to k k')" and "z_dim self = CInt z" and "0 \<le> z"
  shows "ResnetEncoder_init_head (small_env q) self (CInt (int n)) w
   = (if k = k'
      then Inr (self\<lparr>model := (model self)\<lparr>fc := DenseHead
                 \<lparr>scale = 0, wm = 1, in_channels = 3, out_channels = 2 * z, kernel_size = int k,
                  sub_layers = [\<lparr>conv_in_channels = 3, conv_out_channels = 2 * z,
                                 conv_kernel_size = int k, conv_stride = 1, conv_padding = 0,
                                 conv_bias = True\<rparr>]\<rparr>\<rparr>\<rparr>)
      else Inl (AssertionError ''Output spatial size is not quadratic''),
      w\<lparr>rng_draws := rng_draws w + 3 * n * n\<rparr>)"
proof -
  let ?x = "fst (torch_randn (normal_stream (small_env q)) [1, 3, n, n] w)"
  have "shape ?x = [1, 3, n, n]" by (simp add: torch_randn_def)
  have "model self = (small_backbone (pool_to k k'))\<lparr>fc := LibraryFc Inr\<rparr>"
    by (simp add: m small_backbone_def)
  from small_backbone_features [OF assms(1) this \<open>shape ?x = [1, 3, n, n]\<close>]
  obtain y where y: "shape y = [1, 3, n, n]" "ResnetEncoder_features self ?x = pool_to k k' y"
    by auto
  have sz: "err_bind (ResnetEncoder_features self ?x) (\<lambda>t. Inr (shape t)) = Inr [1, 3, k, k']"
    using y by (simp add: pool_to_def err_bind_def)
  have g: "ResnetEncoder_get_spatial_size (small_env q) self (CInt (int n)) w
           = (Inr [1, 3, k, k'], w\<lparr>rng_draws := rng_draws w + 3 * n * n\<rparr>)"
    by (simp only: get_spatial_size_probe sz)
  show ?thesis
    using assms(4)
    by (simp add: ResnetEncoder_init_head_def g tuple_get_def err_bind_def
        assms(3) DenseEncoderLayer_init_def DenseEncoderLayer_build_def Let_def)
qed






subsection \<open>The normalisation selector\<close>

text \<open>
  Claim C6. The selector maps "in", "bn" and "an" to instance, batch and activation
  normalisation, and subscripting it with any other value raises \<^verbatim>\<open>KeyError\<close>.
  Constructing a \<^verbatim>\<open>ResnetEncoder\<close> from a configuration that has the latent size,
  the input size and the pretrained flag, and any other normalisation token, fails
  with that \<^verbatim>\<open>KeyError\<close>, before any collaborator is called.
\<close>

theorem norm_options_closed:
  "dict_get norm_options (CStr ''in'') = Inr InstanceNorm2d
   \<and> dict_get norm_options (CStr ''bn'') = Inr BatchNorm2d
   \<and> dict_get norm_options (CStr ''an'') = Inr ActNorm
   \<and> (tok \<notin> {CStr ''in'', CStr ''bn'', CStr ''an''}
        \<longrightarrow> dict_get norm_options tok = Inl (KeyError tok))
   \<and> (tok \<notin> {CStr ''in'', CStr ''bn'', CStr ''an''}
        \<and> cfg ''Model/z_dim'' = Some z \<and> cfg ''Model/in_size'' = Some i
        \<and> cfg ''Model/pretrained'' = Some p \<and> cfg ''Model/norm'' = Some tok
        \<longrightarrow> ResnetEncoder_init env cfg w = (Inl (KeyError tok), w))"
proof -
  have k: "dict_get norm_options tok = Inl (KeyError tok)"
    if "tok \<notin> {CStr ''in'', CStr ''bn'', CStr ''an''}"
    using that by (cases tok) (auto simp: dict_get_def norm_options_def)
  have "ResnetEncoder_init env cfg w = (Inl (KeyError tok), w)"
    if "tok \<notin> {CStr ''in'', CStr ''bn'', CStr ''an''}"
      and "cfg ''Model/z_dim'' = Some z" and "cfg ''Model/in_size'' = Some i"
      and "cfg ''Model/pretrained'' = Some p" and "cfg ''Model/norm'' = Some tok"
  proof -
    have "ResnetEncoder_init_backbone env cfg w = (Inl (KeyError tok), w)"
      using that(2-5) k [OF that(1)]
      by (cases "cfg ''Model/type''")
         (simp_all add: ResnetEncoder_init_backbone_def retrieve_def err_bind_def)
    then show ?thesis by (simp add: ResnetEncoder_init_def)
  qed
  with k show ?thesis
    by (simp add: dict_get_def norm_options_def)
qed

theorem norm_options_closed_witness:
  "ResnetEncoder_init (small_env (pool_to 1 1))
     (model_config False 128 ''gn'' False ''resnet101'' True 128) world0
   = (Inl (KeyError (CStr ''gn'')), world0)"
  using norm_options_closed [of "CStr ''gn''"
      "model_config False 128 ''gn'' False ''resnet101'' True 128"
      "CInt 128" "CInt 128" "CBool False" "small_env (pool_to 1 1)" world0]
  by (simp add: model_config_def)

subsection \<open>The assertion on the probed feature map\<close>




subsection \<open>The encoder's forward pass\<close>

lemma small_encoder_forward:
  assumes "shape x = [b, 3, h, wd]" and "0 < b"
  shows "\<exists>y1 y2 :: tensor. ResnetEncoder_pre_process (small_encoder det) x = Inr y1
          \<and> ResnetEncoder_pre_process (small_encoder det) y1 = Inr y2
          \<and> (\<forall>i<b. \<forall>js. ent y1 (i # js)
                = (rescale (ent x (i # js)) - ResnetEncoder_mean () ! (js ! 0))
                  / ResnetEncoder_std () ! (js ! 0))
          \<and> (\<forall>i<b. \<forall>js. ent y2 (i # js)
                = (rescale (ent y1 (i # js)) - ResnetEncoder_mean () ! (js ! 0))
                  / ResnetEncoder_std () ! (js ! 0))
          \<and> ResnetEncoder_forward (conv2d_forward (small_env q)) (small_encoder det) x
              = Inr \<lparr>shape = [b, 3, 1, 1], ent = (\<lambda>idx. ent y2 (take 2 idx @ [0, 0]))\<rparr>
          \<and> spec_ResnetEncoder_forward (conv2d_forward (small_env q)) (small_encoder det) x
              = Inr \<lparr>shape = [b, 3, 1, 1], ent = (\<lambda>idx. ent y1 (take 2 idx @ [0, 0]))\<rparr>"
proof -
  let ?c = "small_config det"
  have t: "image_transform (small_encoder det)
           = make_image_transform (ResnetEncoder_mean ?c) (ResnetEncoder_std ?c)"
    by (simp add: small_encoder_def)
  have ms: "ResnetEncoder_mean ?c = ResnetEncoder_mean ()" "ResnetEncoder_std ?c = ResnetEncoder_std ()"
    by (simp_all add: ResnetEncoder_mean_def ResnetEncoder_std_def)
  obtain y1 where y1: "make_image_transform (ResnetEncoder_mean ?c) (ResnetEncoder_std ?c) x = Inr y1"
    "shape y1 = [b, 3, h, wd]"
    "\<forall>i<b. \<forall>js. ent y1 (i # js)
        = (rescale (ent x (i # js)) - ResnetEncoder_mean ?c ! (js ! 0)) / ResnetEncoder_std ?c ! (js ! 0)"
    using make_image_transform_batch [OF assms, of ?c ?c] by blast
  obtain y2 where y2: "make_image_transform (ResnetEncoder_mean ?c) (ResnetEncoder_std ?c) y1 = Inr y2"
    "shape y2 = [b, 3, h, wd]"
    "\<forall>i<b. \<forall>js. ent y2 (i # js)
        = (rescale (ent y1 (i # js)) - ResnetEncoder_mean ?c ! (js ! 0)) / ResnetEncoder_std ?c ! (js ! 0)"
    using make_image_transform_batch [OF y1(2) assms(2), of ?c ?c] by blast
  have p1: "ResnetEncoder_pre_process (small_encoder det) x = Inr y1"
    by (simp add: ResnetEncoder_pre_process_def t y1(1))
  have p2: "ResnetEncoder_pre_process (small_encoder det) y1 = Inr y2"
    by (simp add: ResnetEncoder_pre_process_def t y2(1))
  have stages: "spec_backbone_stages (model (small_encoder det)) y
                = Inr \<lparr>shape = take 2 (shape y) @ [1, 1], ent = (\<lambda>idx. ent y (take 2 idx @ [0, 0]))\<rparr>" for y
    by (simp add: spec_backbone_stages_def small_encoder_def small_backbone_def err_bind_def pool_to_def)
  have feat: "ResnetEncoder_features (small_encoder det) y
              = err_bind (ResnetEncoder_pre_process (small_encoder det) y)
                  (spec_backbone_stages (model (small_encoder det)))" for y
    by (simp add: ResnetEncoder_features_def spec_backbone_stages_def [abs_def])
  have hd: "head_apply (conv2d_forward (small_env q)) (fc (model (small_encoder det))) y = Inr y" for y
    by (simp add: head_apply_def small_encoder_def DenseEncoderLayer_forward_def small_env_def err_bind_def)
  have f: "ResnetEncoder_forward (conv2d_forward (small_env q)) (small_encoder det) x
              = Inr \<lparr>shape = [b, 3, 1, 1], ent = (\<lambda>idx. ent y2 (take 2 idx @ [0, 0]))\<rparr>"
    by (simp add: ResnetEncoder_forward_def feat p1 p2 stages hd err_bind_def y2(2))
  have s: "spec_ResnetEncoder_forward (conv2d_forward (small_env q)) (small_encoder det) x
              = Inr \<lparr>shape = [b, 3, 1, 1], ent = (\<lambda>idx. ent y1 (take 2 idx @ [0, 0]))\<rparr>"
    by (simp add: spec_ResnetEncoder_forward_def p1 stages hd err_bind_def y1(2))
  from p1 p2 y1(3) y2(3) f s show ?thesis
    unfolding ms by blast
qed

text \<open>
  For every encoder, the forward pass is the head after the backbone stages after
  two applications of the preprocessing.
\<close>

lemma ResnetEncoder_forward_unfold:
  "ResnetEncoder_forward conv self x
   = err_bind (ResnetEncoder_pre_process self x) (\<lambda>x1.
     err_bind (ResnetEncoder_pre_process self x1) (\<lambda>x2.
     err_bind (spec_backbone_stages (model self) x2) (head_apply conv (fc (model self)))))"
  by (simp add: ResnetEncoder_forward_def ResnetEncoder_features_def spec_backbone_stages_def
      err_bind_def split: sum.splits)

text \<open>
  Claim C2, evaluated on the code. \<^verbatim>\<open>ResnetEncoder.forward\<close> preprocesses its input
  and then calls \<^verbatim>\<open>features\<close>, which preprocesses again: the network sees the
  twice-preprocessed image. For the image of shape (1, 3, 1, 1) with every entry 1
  and the small encoder, whose stages and head pass their input on, the code
  returns 260935 / 52441 (about 4.98) in channel 0, where the forward contract of
  the specification gives 515 / 229 (about 2.25).
\<close>

theorem ResnetEncoder_forward_preprocesses_twice:
  "entry_of (ResnetEncoder_forward (conv2d_forward (small_env (pool_to 1 1))) (small_encoder False)
              (full [1, 3, 1, 1] 1)) [0, 0, 0, 0] = Inr (260935 / 52441)
   \<and> entry_of (spec_ResnetEncoder_forward (conv2d_forward (small_env (pool_to 1 1)))
                 (small_encoder False) (full [1, 3, 1, 1] 1)) [0, 0, 0, 0] = Inr (515 / 229)"
proof -
  have sx: "shape (full [1, 3, 1, 1] 1) = [1, 3, 1, 1]" by (simp add: full_def)
  from small_encoder_forward [OF sx zero_less_one, of False "pool_to 1 1"]
  obtain y1 y2 :: tensor where
    e1: "\<forall>i<1. \<forall>js. ent y1 (i # js)
                = (rescale (ent (full [1, 3, 1, 1] 1) (i # js)) - ResnetEncoder_mean () ! (js ! 0))
                  / ResnetEncoder_std () ! (js ! 0)"
    and e2: "\<forall>i<1. \<forall>js. ent y2 (i # js)
                = (rescale (ent y1 (i # js)) - ResnetEncoder_mean () ! (js ! 0))
                  / ResnetEncoder_std () ! (js ! 0)"
    and f: "ResnetEncoder_forward (conv2d_forward (small_env (pool_to 1 1))) (small_encoder False)
              (full [1, 3, 1, 1] 1)
            = Inr \<lparr>shape = [1, 3, 1, 1], ent = (\<lambda>idx. ent y2 (take 2 idx @ [0, 0]))\<rparr>"
    and s: "spec_ResnetEncoder_forward (conv2d_forward (small_env (pool_to 1 1))) (small_encoder False)
              (full [1, 3, 1, 1] 1)
            = Inr \<lparr>shape = [1, 3, 1, 1], ent = (\<lambda>idx. ent y1 (take 2 idx @ [0, 0]))\<rparr>"
    by auto
  have v1: "ent y1 [0, 0, 0, 0] = 515 / 229"
    using e1 by (simp add: full_def rescale_def ResnetEncoder_mean_def ResnetEncoder_std_def)
  have v2: "ent y2 [0, 0, 0, 0] = 260935 / 52441"
    using e2 by (simp add: v1 rescale_def ResnetEncoder_mean_def ResnetEncoder_std_def)
  show ?thesis
    using f s by (simp add: entry_of_def v1 v2 numeral_2_eq_2)
qed

subsection \<open>The deterministic latent distribution\<close>

lemma small_model_constructed:
  "BigAE_init (small_env (pool_to 1 1)) (small_config det) w
   = (Inr (small_model det),
      w\<lparr>cudnn_benchmark := True,
        ext_calls := ext_calls w @ [CallResnet resnet101 (CBool False) ActNorm,
                       CallGenerator (CInt 1) (CInt 1) (CBool False) (CBool False) 1000],
        rng_draws := rng_draws w + 3\<rparr>)"
proof -
  let ?cfg = "model_config det (int 1) ''an'' False ''resnet101'' False 1"
  let ?w1 = "w\<lparr>cudnn_benchmark := True\<rparr>"
  let ?self = "\<lparr>config = ?cfg, resnet_type = CStr ''resnet101'', z_dim = CInt 1,
                 model = small_backbone (pool_to 1 1),
                 image_transform = make_image_transform (ResnetEncoder_mean ?cfg) (ResnetEncoder_std ?cfg)\<rparr>"
  have det: "retrieve ?cfg ''Model/deterministic'' (Some (CBool False)) = Inr (CBool det)"
    by (simp add: model_config_def retrieve_def)
  have hd: "ResnetEncoder_init_head (small_env (pool_to 1 1)) ?self (CInt (int 1)) w'
     = (Inr (?self\<lparr>model := (model ?self)\<lparr>fc := DenseHead
                 \<lparr>scale = 0, wm = 1, in_channels = 3, out_channels = 2 * 1, kernel_size = int 1,
                  sub_layers = [\<lparr>conv_in_channels = 3, conv_out_channels = 2 * 1,
                                 conv_kernel_size = int 1, conv_stride = 1, conv_padding = 0,
                                 conv_bias = True\<rparr>]\<rparr>\<rparr>\<rparr>),
        w'\<lparr>rng_draws := rng_draws w' + 3 * 1 * 1\<rparr>)" for w'
    using small_env_init_head [of ?self ?cfg ?cfg 1 1 1 "pool_to 1 1" 1 w'] by simp
  have enc: "ResnetEncoder_init (small_env (pool_to 1 1)) ?cfg ?w1
     = (Inr (small_encoder det),
        ?w1\<lparr>ext_calls := ext_calls ?w1 @ [CallResnet resnet101 (CBool False) ActNorm],
             rng_draws := rng_draws ?w1 + 3\<rparr>)"
    using hd small_env_init_backbone [of "pool_to 1 1" det 1 False False 1 ?w1]
    by (simp add: ResnetEncoder_init_def small_encoder_def small_config_def)
  have dec: "BigGANDecoderWrapper_init (small_env (pool_to 1 1)) ?cfg w'
     = (Inr \<lparr>map_to_class_embedding = ClassUp_init zero_params 1 2 (2 * 1000) False (Some 1000),
             decoder = (\<lambda>z emb. Inr emb)\<rparr>,
        w'\<lparr>ext_calls := ext_calls w'
                @ [CallGenerator (CInt 1) (CInt 1) (CBool False) (CBool False) 1000]\<rparr>)" for w'
    by (simp add: BigGANDecoderWrapper_init_def model_config_def retrieve_def err_bind_def
        small_env_def Let_def)
  show ?thesis
    using enc dec det
    by (simp add: BigAE_init_def small_config_def small_model_def)
qed

text \<open>
  Claim C3. For a model whose determinism flag is set, whenever the encoder returns
  a tensor with a channel axis, \<^verbatim>\<open>BigAE.encode\<close> returns a distribution whose mean is
  the first half of the encoder's output along the channel axis, whose log-variance
  is the degenerate constant, and whose sampling operation returns the mean itself
  for every noise.
\<close>

theorem BigAE_encode_deterministic:
  assumes "truthy (be_deterministic self)"
    and "ResnetEncoder_forward (conv2d_forward env) (encoder self) x = Inr h"
    and "2 \<le> length (shape h)"
  shows "\<exists>d. BigAE_encode env self x = Inr d
           \<and> (\<forall>noise. sample d noise = dist_mean d)
           \<and> dist_mean d = \<lparr>shape = (shape h)[1 := shape h ! 1 div 2], ent = ent h\<rparr>
           \<and> dist_logvar d = full (shape (dist_mean d)) (degenerate_logvar env)"
  using assms
  by (simp add: BigAE_encode_def err_bind_def DiagonalGaussianDistribution_def Let_def sample_def)

theorem BigAE_encode_deterministic_witness:
  "\<exists>d. BigAE_encode (small_env (pool_to 1 1)) (small_model True) (full [1, 3, 1, 1] 1) = Inr d
       \<and> (\<forall>noise. sample d noise = dist_mean d)
       \<and> shape (dist_mean d) = [1, 1, 1, 1]
       \<and> entry_of (Inr (dist_mean d)) [0, 0, 0, 0] = Inr (260935 / 52441)
       \<and> dist_logvar d = full [1, 1, 1, 1] 0"
proof -
  have sx: "shape (full [1, 3, 1, 1] 1) = [1, 3, 1, 1]" by (simp add: full_def)
  from small_encoder_forward [OF sx zero_less_one, of True "pool_to 1 1"]
  obtain y1 y2 :: tensor where
    e1: "\<forall>i<1. \<forall>js. ent y1 (i # js)
                = (rescale (ent (full [1, 3, 1, 1] 1) (i # js)) - ResnetEncoder_mean () ! (js ! 0))
                  / ResnetEncoder_std () ! (js ! 0)"
    and e2: "\<forall>i<1. \<forall>js. ent y2 (i # js)
                = (rescale (ent y1 (i # js)) - ResnetEncoder_mean () ! (js ! 0))
                  / ResnetEncoder_std () ! (js ! 0)"
    and f: "ResnetEncoder_forward (conv2d_forward (small_env (pool_to 1 1))) (small_encoder True)
              (full [1, 3, 1, 1] 1)
            = Inr \<lparr>shape = [1, 3, 1, 1], ent = (\<lambda>idx. ent y2 (take 2 idx @ [0, 0]))\<rparr>"
    by blast
  have v1: "ent y1 [0, 0, 0, 0] = 515 / 229"
    using e1 by (simp add: full_def rescale_def ResnetEncoder_mean_def ResnetEncoder_std_def)
  have v2: "ent y2 [0, 0, 0, 0] = 260935 / 52441"
    using e2 by (simp add: v1 rescale_def ResnetEncoder_mean_def ResnetEncoder_std_def)
  have t: "truthy (be_deterministic (small_model True))"
    by (simp add: small_model_def)
  have f': "ResnetEncoder_forward (conv2d_forward (small_env (pool_to 1 1)))
              (encoder (small_model True)) (full [1, 3, 1, 1] 1)
            = Inr \<lparr>shape = [1, 3, 1, 1], ent = (\<lambda>idx. ent y2 (take 2 idx @ [0, 0]))\<rparr>"
    using f by (simp add: small_model_def)
  have r: "2 \<le> length (shape \<lparr>shape = [1, 3, 1, 1], ent = (\<lambda>idx. ent y2 (take 2 idx @ [0, 0]))\<rparr>)"
    by simp
  from BigAE_encode_deterministic [OF t f' r]
  show ?thesis
    by (auto simp: entry_of_def v2 small_env_def)
qed

end
